theory Spec2Isabelle
  imports Complex_Main "HOL-Library.Char_ord" "HOL-Library.List_Lexorder"
begin

section \<open>Data model\<close>

text \<open>
  The program is a single Python module, \<^verbatim>\<open>main.py\<close>. It keeps three SQLite tables
  (\<^verbatim>\<open>groups\<close>, \<^verbatim>\<open>group_items\<close>, \<^verbatim>\<open>settings\<close>) and two module globals
  (\<^verbatim>\<open>TABLE_DATA\<close>, \<^verbatim>\<open>LAST_REFRESH\<close>) that cache the records read from a Paradox table.

  Python exceptions that the modelled functions can meet are values of \<open>exn\<close>.
\<close>

datatype exn = ValueError | TypeError | KeyError | OverflowError

text \<open>
  The values a field of a catalog record holds. The type \<open>'f\<close> stands for Python's
  \<^verbatim>\<open>float\<close>: binary floating point is not modelled, its operations are parameters
  (see \<open>py\<close> below).
\<close>

datatype 'f pyval = PNone | PStr string | PInt int | PFloat 'f

text \<open>
  A catalog record is the dictionary \<^verbatim>\<open>{field: getattr(record, field) for field in field_names}\<close>,
  kept as an association list in field order. A snapshot is the pair
  \<^verbatim>\<open>(records, field_names)\<close> stored in \<^verbatim>\<open>TABLE_DATA\<close>.
\<close>

type_synonym 'f catalog_record = "(string \<times> 'f pyval) list"

type_synonym 'f snapshot = "'f catalog_record list \<times> string list"

text \<open>
  The external table reader \<^verbatim>\<open>pypxlib.Table\<close>: opening a path either raises (\<open>None\<close>) or
  gives the field names and the rows; reading an attribute of a row either raises
  (\<open>None\<close>) or gives a value.
\<close>

type_synonym 'f table_row = "string \<Rightarrow> 'f pyval option"

type_synonym 'f table = "string list \<times> 'f table_row list"

type_synonym 'f table_reader = "string \<Rightarrow> 'f table option"

text \<open>
  The whole state of the program: the rows of the three SQLite tables, the two cache
  globals, and \<open>table_reads\<close>, the list of paths handed to \<^verbatim>\<open>Table(...)\<close> so far
  (an observation of the calls to the external reader, oldest first).
  The clock \<^verbatim>\<open>time.time()\<close> is read as a real number of seconds.
\<close>

record 'f world =
  groups :: "(int \<times> string) list"
  group_items :: "(int \<times> int) list"
  settings :: "string \<rightharpoonup> string"
  TABLE_DATA :: "'f snapshot option"
  LAST_REFRESH :: real
  table_reads :: "string list"

text \<open>A JSON response \<^verbatim>\<open>jsonify({key: text}), status\<close>.\<close>

type_synonym response = "(string \<times> string) \<times> nat"

section \<open>Settings store\<close>

definition get_setting :: "'f world \<Rightarrow> string \<Rightarrow> string option" where
  "get_setting w key = settings w key"

definition set_setting :: "'f world \<Rightarrow> string \<Rightarrow> string \<Rightarrow> 'f world" where
  "set_setting w key val = w\<lparr>settings := (settings w)(key \<mapsto> val)\<rparr>"

section \<open>Group store\<close>

text \<open>
  The schema of \<^verbatim>\<open>init_db\<close>: \<^verbatim>\<open>groups.id\<close> is the primary key, \<^verbatim>\<open>groups.name\<close> is
  \<^verbatim>\<open>UNIQUE\<close>, and \<^verbatim>\<open>group_items\<close> is \<^verbatim>\<open>UNIQUE(group_id, item_id)\<close>. A statement whose
  result would break one of them raises \<^verbatim>\<open>sqlite3.IntegrityError\<close> and changes nothing.
  The \<^verbatim>\<open>FOREIGN KEY(group_id)\<close> clause is declared, but no connection of the program
  issues \<^verbatim>\<open>PRAGMA foreign_keys = ON\<close>, so SQLite does not check it.
\<close>

definition groups_ok :: "(int \<times> string) list \<Rightarrow> bool" where
  "groups_ok rows = (distinct (map fst rows) \<and> distinct (map snd rows))"

definition group_items_ok :: "(int \<times> int) list \<Rightarrow> bool" where
  "group_items_ok rows = distinct rows"

text \<open>
  A Python integer handed to a statement as a parameter has to fit SQLite's signed 64-bit
  \<^verbatim>\<open>INTEGER\<close>. For any other integer \<^verbatim>\<open>execute\<close> raises \<^verbatim>\<open>OverflowError\<close> before the
  statement runs; the \<^verbatim>\<open>except sqlite3.IntegrityError\<close> clauses of the program do not
  catch it, so it leaves the function and the tables stay as they were.
\<close>

definition sqlite_int :: "int \<Rightarrow> bool" where
  "sqlite_int i = (- (2 ^ 63) \<le> i \<and> i < 2 ^ 63)"

text \<open>\<^verbatim>\<open>UPDATE groups SET name = ? WHERE id = ?\<close> on the rows of the table.\<close>

definition sql_update_name :: "(int \<times> string) list \<Rightarrow> string \<Rightarrow> int \<Rightarrow> (int \<times> string) list" where
  "sql_update_name rows new_name group_id =
     map (\<lambda>(i, n). if i = group_id then (i, new_name) else (i, n)) rows"

definition update_group :: "'f world \<Rightarrow> int \<Rightarrow> string \<Rightarrow> exn + 'f world \<times> bool" where
  "update_group w group_id new_name =
     (if \<not> sqlite_int group_id then Inl OverflowError
      else (let rows = sql_update_name (groups w) new_name group_id in
            if groups_ok rows then Inr (w\<lparr>groups := rows\<rparr>, True)
            else Inr (w, False)))"

text \<open>
  \<^verbatim>\<open>request.json.get('name')\<close> is \<open>None\<close> when the key is missing or null;
  \<^verbatim>\<open>not new_name\<close> also holds for the empty string. An exception of \<open>update_group\<close>
  leaves the handler.
\<close>

definition update_group_api :: "'f world \<Rightarrow> int \<Rightarrow> string option \<Rightarrow> exn + 'f world \<times> response" where
  "update_group_api w group_id name =
     (case name of
        None \<Rightarrow> Inr (w, ((''error'', ''Group name is required''), 400))
      | Some new_name \<Rightarrow>
          if new_name = [] then Inr (w, ((''error'', ''Group name is required''), 400))
          else (case update_group w group_id new_name of
                  Inl e \<Rightarrow> Inl e
                | Inr (w', True) \<Rightarrow> Inr (w', ((''message'', ''Group updated''), 200))
                | Inr (w', False) \<Rightarrow> Inr (w', ((''error'', ''Group name already exists''), 400))))"

text \<open>\<^verbatim>\<open>INSERT INTO group_items (group_id, item_id) VALUES (?, ?)\<close>.\<close>

definition add_item_to_group :: "'f world \<Rightarrow> int \<Rightarrow> int \<Rightarrow> exn + 'f world \<times> bool" where
  "add_item_to_group w group_id item_id =
     (if \<not> sqlite_int group_id \<or> \<not> sqlite_int item_id then Inl OverflowError
      else (let rows = group_items w @ [(group_id, item_id)] in
            if group_items_ok rows then Inr (w\<lparr>group_items := rows\<rparr>, True)
            else Inr (w, False)))"

text \<open>
  The ids of a request are \<^verbatim>\<open>data.get('group_id')\<close> and \<^verbatim>\<open>data.get('item_id')\<close>: \<open>None\<close>
  when the key is missing or null, \<open>Some n\<close> for the JSON integer \<open>n\<close>.
  \<^verbatim>\<open>not x\<close> holds for \<open>None\<close> and for \<open>0\<close>. An exception of \<open>add_item_to_group\<close>
  leaves the handler.
\<close>

definition py_not :: "int option \<Rightarrow> bool" where
  "py_not x = (case x of None \<Rightarrow> True | Some n \<Rightarrow> n = 0)"

definition add_item_to_group_api ::
  "'f world \<Rightarrow> int option \<Rightarrow> int option \<Rightarrow> exn + 'f world \<times> response" where
  "add_item_to_group_api w group_id item_id =
     (if py_not group_id \<or> py_not item_id
      then Inr (w, ((''error'', ''Missing group_id or item_id''), 400))
      else (case (group_id, item_id) of
              (Some g, Some i) \<Rightarrow>
                (case add_item_to_group w g i of
                   Inl e \<Rightarrow> Inl e
                 | Inr (w', True) \<Rightarrow> Inr (w', ((''message'', ''Item added to group''), 201))
                 | Inr (w', False) \<Rightarrow> Inr (w', ((''error'', ''Item already in group''), 400)))
            | _ \<Rightarrow> Inr (w, ((''error'', ''Missing group_id or item_id''), 400))))"




section \<open>Catalog cache\<close>

definition CACHE_TIMEOUT :: real where
  "CACHE_TIMEOUT = 300"

text \<open>
  Lines 135 to 143 of \<^verbatim>\<open>get_records\<close>: open the table, read every field of every row.
  Any exception on the way leaves the \<^verbatim>\<open>try\<close> block.
\<close>

definition read_row :: "string list \<Rightarrow> 'f table_row \<Rightarrow> 'f catalog_record option" where
  "read_row field_names row = those (map (\<lambda>field. map_option (Pair field) (row field)) field_names)"

definition read_table :: "'f table_reader \<Rightarrow> string \<Rightarrow> 'f snapshot option" where
  "read_table reader db_path =
     (case reader db_path of
        None \<Rightarrow> None
      | Some (field_names, rows) \<Rightarrow>
          (case those (map (read_row field_names) rows) of
             None \<Rightarrow> None
           | Some records \<Rightarrow> Some (records, field_names)))"

text \<open>
  The part of \<^verbatim>\<open>get_records\<close> after the freshness test. \<open>t_load\<close> is the clock reading
  stored in \<^verbatim>\<open>LAST_REFRESH\<close>. \<^verbatim>\<open>get_setting('db_path') or 'items.DB'\<close> takes the default
  for a missing and for an empty setting.
\<close>

definition current_db_path :: "'f world \<Rightarrow> string" where
  "current_db_path w =
     (case get_setting w ''db_path'' of
        None \<Rightarrow> ''items.DB''
      | Some v \<Rightarrow> if v = [] then ''items.DB'' else v)"

definition load_records :: "'f table_reader \<Rightarrow> real \<Rightarrow> 'f world \<Rightarrow> 'f world \<times> 'f snapshot" where
  "load_records reader t_load w =
     (let db_path = current_db_path w;
          w1 = w\<lparr>table_reads := table_reads w @ [db_path]\<rparr>
      in case read_table reader db_path of
           Some snap \<Rightarrow> (w1\<lparr>TABLE_DATA := Some snap, LAST_REFRESH := t_load\<rparr>, snap)
         | None \<Rightarrow> (w1, ([], [])))"

text \<open>
  \<^verbatim>\<open>get_records\<close>; \<open>t_check\<close> is the clock reading of the freshness test. The tuple in
  \<^verbatim>\<open>TABLE_DATA\<close> has two components, so it is true whenever it is not \<^verbatim>\<open>None\<close>.
\<close>

definition get_records :: "'f table_reader \<Rightarrow> real \<Rightarrow> real \<Rightarrow> 'f world \<Rightarrow> 'f world \<times> 'f snapshot" where
  "get_records reader t_check t_load w =
     (case TABLE_DATA w of
        Some snap \<Rightarrow>
          if t_check - LAST_REFRESH w < CACHE_TIMEOUT then (w, snap)
          else load_records reader t_load w
      | None \<Rightarrow> load_records reader t_load w)"

text \<open>\<^verbatim>\<open>api_update_settings\<close>; the argument is \<^verbatim>\<open>request.json.get('db_path')\<close>.\<close>

definition api_update_settings :: "'f world \<Rightarrow> string option \<Rightarrow> 'f world \<times> response" where
  "api_update_settings w db_path =
     (case db_path of
        None \<Rightarrow> (w, ((''error'', ''Missing db_path parameter''), 400))
      | Some p \<Rightarrow>
          ((set_setting w ''db_path'' p)\<lparr>TABLE_DATA := None, LAST_REFRESH := 0\<rparr>,
           ((''message'', ''Settings updated''), 200)))"

section \<open>Python built-ins\<close>

text \<open>
  The built-ins the program applies to floats and to text, taken as parameters:
  \<open>float_str\<close> is \<^verbatim>\<open>float(s)\<close> on a string (\<open>None\<close> when it raises \<^verbatim>\<open>ValueError\<close>),
  \<open>float_int\<close> is \<^verbatim>\<open>float(n)\<close> on an integer (\<open>None\<close> when it raises \<^verbatim>\<open>OverflowError\<close>),
  \<open>fzero\<close> is the literal \<^verbatim>\<open>0.0\<close>, \<open>fmt4\<close> is the format \<^verbatim>\<open>f"{x:.4f}"\<close>,
  \<open>str_float\<close> is \<^verbatim>\<open>str(x)\<close> on a float and \<open>lower\<close> is \<^verbatim>\<open>str.lower\<close>.
\<close>

record 'f py =
  float_str :: "string \<Rightarrow> 'f option"
  float_int :: "int \<Rightarrow> 'f option"
  fzero :: 'f
  fmt4 :: "'f \<Rightarrow> string"
  str_float :: "'f \<Rightarrow> string"
  lower :: "string \<Rightarrow> string"

definition py_float :: "'f py \<Rightarrow> 'f pyval \<Rightarrow> exn + 'f" where
  "py_float py v =
     (case v of
        PNone \<Rightarrow> Inl TypeError
      | PStr s \<Rightarrow> (case float_str py s of None \<Rightarrow> Inl ValueError | Some x \<Rightarrow> Inr x)
      | PInt n \<Rightarrow> (case float_int py n of None \<Rightarrow> Inl OverflowError | Some x \<Rightarrow> Inr x)
      | PFloat x \<Rightarrow> Inr x)"

text \<open>Decimal text of an integer, as \<^verbatim>\<open>str(n)\<close> and the f-string \<^verbatim>\<open>f"{n}"\<close> give it.\<close>

definition digit_char :: "nat \<Rightarrow> char" where
  "digit_char d = ''0123456789'' ! d"

fun str_nat :: "nat \<Rightarrow> string" where
  "str_nat n = (if n < 10 then [digit_char n] else str_nat (n div 10) @ [digit_char (n mod 10)])"

definition str_int :: "int \<Rightarrow> string" where
  "str_int i = (if i < 0 then CHR ''-'' # str_nat (nat (- i)) else str_nat (nat i))"

definition py_str :: "'f py \<Rightarrow> 'f pyval \<Rightarrow> string" where
  "py_str py v =
     (case v of
        PNone \<Rightarrow> ''None''
      | PStr s \<Rightarrow> s
      | PInt n \<Rightarrow> str_int n
      | PFloat x \<Rightarrow> str_float py x)"

text \<open>\<^verbatim>\<open>d.get(key, default)\<close> on a record.\<close>

definition dict_get :: "'f catalog_record \<Rightarrow> string \<Rightarrow> 'f pyval \<Rightarrow> 'f pyval" where
  "dict_get r key dflt = (case map_of r key of None \<Rightarrow> dflt | Some v \<Rightarrow> v)"

text \<open>\<^verbatim>\<open>needle in haystack\<close> on strings.\<close>

fun starts_with :: "string \<Rightarrow> string \<Rightarrow> bool" where
  "starts_with [] s = True"
| "starts_with (c # cs) [] = False"
| "starts_with (c # cs) (d # ds) = (c = d \<and> starts_with cs ds)"

fun py_in :: "string \<Rightarrow> string \<Rightarrow> bool" where
  "py_in needle [] = (needle = [])"
| "py_in needle (c # cs) = (starts_with needle (c # cs) \<or> py_in needle cs)"

text \<open>
  The slice \<^verbatim>\<open>xs[start:stop]\<close>: a negative index counts from the end, and both indices
  are clipped to the list.
\<close>

definition slice_index :: "nat \<Rightarrow> int \<Rightarrow> nat" where
  "slice_index n i = (if i < 0 then nat (max (int n + i) 0) else min (nat i) n)"

definition py_slice :: "'a list \<Rightarrow> int \<Rightarrow> int \<Rightarrow> 'a list" where
  "py_slice xs start stop =
     (let s = slice_index (length xs) start;
          e = slice_index (length xs) stop
      in take (e - s) (drop s xs))"

section \<open>Search and pagination\<close>

record 'f search_response =
  results :: "'f catalog_record list"
  total :: nat
  page :: int
  per_page :: nat
  total_pages :: nat

definition search_text :: "'f py \<Rightarrow> 'f catalog_record \<Rightarrow> string" where
  "search_text py r =
     lower py (py_str py (dict_get r ''id'' (PStr [])) @ '' '' @
               py_str py (dict_get r ''Code'' (PStr [])) @ '' '' @
               py_str py (dict_get r ''Item'' (PStr [])) @ '' '' @
               py_str py (dict_get r ''ClientPrice'' (PStr [])) @ '' '' @
               py_str py (dict_get r ''Vendor'' (PStr [])))"

definition display_fields :: "'f catalog_record \<Rightarrow> 'f catalog_record" where
  "display_fields r =
     map (\<lambda>key. (key, dict_get r key (PStr [])))
       [''id'', ''Code'', ''Item'', ''ClientPrice'', ''Vendor'', ''VendorPrice'']"

text \<open>
  The body of \<^verbatim>\<open>search_items\<close> after \<^verbatim>\<open>get_records()\<close> (\<open>filter_records\<close> is the
  filter loop, on the lowered query): \<open>q\<close> is \<^verbatim>\<open>request.args.get('q', '')\<close>
  and \<open>page_no\<close> is the integer \<^verbatim>\<open>int(request.args.get('page', 1))\<close>.
\<close>

definition filter_records :: "'f py \<Rightarrow> 'f catalog_record list \<Rightarrow> string \<Rightarrow> 'f catalog_record list" where
  "filter_records py records query =
     (if query \<noteq> [] then filter (\<lambda>r. py_in query (search_text py r)) records
      else records)"

definition search_records :: "'f py \<Rightarrow> 'f catalog_record list \<Rightarrow> string \<Rightarrow> int \<Rightarrow> 'f search_response" where
  "search_records py records q page_no =
     (let query = lower py q;
          n = (50 :: nat);
          filtered = filter_records py records query;
          start = (page_no - 1) * int n;
          stop = start + int n;
          paginated = py_slice filtered start stop
      in \<lparr>results = map display_fields paginated,
          total = length filtered,
          page = page_no,
          per_page = n,
          total_pages = (length filtered + n - 1) div n\<rparr>)"

definition search_items ::
  "'f py \<Rightarrow> 'f table_reader \<Rightarrow> real \<Rightarrow> real \<Rightarrow> 'f world \<Rightarrow> string \<Rightarrow> int \<Rightarrow> 'f world \<times> 'f search_response" where
  "search_items py reader t_check t_load w q page_no =
     (case get_records reader t_check t_load w of
        (w', (records, field_names)) \<Rightarrow> (w', search_records py records q page_no))"

section \<open>Grouped export\<close>

text \<open>
  The document that \<^verbatim>\<open>export_word\<close> builds is kept as the list of the elements that the
  loop over the groups adds: paragraphs and tables (a table is the list of its rows, a
  row the list of its cell texts). The title block before the loop and the footer after
  it are fixed text and are left out. The four header cells of a table are Cyrillic in
  the source and stand here in Latin letters.
\<close>

datatype doc_elem = Paragraph string | Table "string list list"

definition table_headers :: "string list" where
  "table_headers = [''No'', ''Marka'', ''Prodazhna cena s DDS'', ''Dostavna cena bez DDS'']"


text \<open>
  The \<^verbatim>\<open>try\<close> block of the prices: both conversions are inside one \<^verbatim>\<open>try\<close>, and the
  handler of \<^verbatim>\<open>ValueError\<close> sets both prices to \<^verbatim>\<open>0.0\<close>. Another exception leaves the
  function.
\<close>

definition format_prices :: "'f py \<Rightarrow> 'f catalog_record \<Rightarrow> exn + ('f \<times> 'f)" where
  "format_prices py item =
     (case py_float py (dict_get item ''ClientPrice'' (PStr ''0.0000'')) of
        Inl e \<Rightarrow> (if e = ValueError then Inr (fzero py, fzero py) else Inl e)
      | Inr client_price \<Rightarrow>
          (case py_float py (dict_get item ''VendorPrice'' (PStr ''0.0000'')) of
             Inl e \<Rightarrow> (if e = ValueError then Inr (fzero py, fzero py) else Inl e)
           | Inr vendor_price \<Rightarrow> Inr (client_price, vendor_price)))"

text \<open>Assigning \<^verbatim>\<open>cell.text\<close>: the document library takes a string and raises on anything else.\<close>

definition cell_text :: "'f pyval \<Rightarrow> exn + string" where
  "cell_text v = (case v of PStr s \<Rightarrow> Inr s | _ \<Rightarrow> Inl TypeError)"

definition item_number :: "nat \<Rightarrow> nat \<Rightarrow> string" where
  "item_number group_idx item_idx = str_nat (group_idx + 1) @ ''.'' @ str_nat (item_idx + 1)"

text \<open>
  \<^verbatim>\<open>item = records_dict.get(str(item_id))\<close> with the test \<^verbatim>\<open>if not item: continue\<close>, which
  holds for a missing key and for an empty dictionary: \<open>None\<close> when the id is skipped.
\<close>

definition lookup_item :: "(string \<times> 'f catalog_record) list \<Rightarrow> int \<Rightarrow> 'f catalog_record option" where
  "lookup_item records_dict item_id =
     (case map_of records_dict (str_int item_id) of
        None \<Rightarrow> None
      | Some item \<Rightarrow> if item = [] then None else Some item)"

text \<open>
  One turn of the inner loop: \<open>Inr None\<close> when the id is skipped, \<open>Inr (Some row)\<close> for
  the row added to the table.
\<close>

definition export_item ::
  "'f py \<Rightarrow> (string \<times> 'f catalog_record) list \<Rightarrow> nat \<Rightarrow> nat \<Rightarrow> int \<Rightarrow> exn + string list option" where
  "export_item py records_dict group_idx item_idx item_id =
     (case lookup_item records_dict item_id of
        None \<Rightarrow> Inr None
      | Some item \<Rightarrow>
          (case cell_text (dict_get item ''Item'' (PStr [])) of
             Inl e \<Rightarrow> Inl e
           | Inr name_text \<Rightarrow>
               (case format_prices py item of
                  Inl e \<Rightarrow> Inl e
                | Inr (client_price, vendor_price) \<Rightarrow>
                    Inr (Some [item_number group_idx item_idx, name_text,
                               fmt4 py client_price, fmt4 py vendor_price]))))"

fun export_items ::
  "'f py \<Rightarrow> (string \<times> 'f catalog_record) list \<Rightarrow> nat \<Rightarrow> (nat \<times> int) list \<Rightarrow> exn + string list list" where
  "export_items py records_dict group_idx [] = Inr []"
| "export_items py records_dict group_idx ((item_idx, item_id) # rest) =
     (case export_item py records_dict group_idx item_idx item_id of
        Inl e \<Rightarrow> Inl e
      | Inr None \<Rightarrow> export_items py records_dict group_idx rest
      | Inr (Some row) \<Rightarrow>
          (case export_items py records_dict group_idx rest of
             Inl e \<Rightarrow> Inl e
           | Inr rows \<Rightarrow> Inr (row # rows)))"

text \<open>
  One turn of the outer loop, for the group at position \<open>group_idx\<close> of \<^verbatim>\<open>groups_data\<close>
  with the member ids \<open>item_ids\<close>: nothing when the group has no member
  (\<^verbatim>\<open>if not item_ids: continue\<close>), else the header paragraph, the table and an empty
  paragraph.
\<close>

definition export_group ::
  "'f py \<Rightarrow> (string \<times> 'f catalog_record) list \<Rightarrow> nat \<Rightarrow> string \<Rightarrow> int list \<Rightarrow> exn + doc_elem list" where
  "export_group py records_dict group_idx name item_ids =
     (if item_ids = [] then Inr []
      else (case export_items py records_dict group_idx (enumerate 0 item_ids) of
              Inl e \<Rightarrow> Inl e
            | Inr rows \<Rightarrow>
                Inr [Paragraph (str_nat (group_idx + 1) @ ''. '' @ name),
                     Table (table_headers # rows),
                     Paragraph []]))"




section \<open>A decimal instance of the built-ins\<close>

text \<open>
  To evaluate the model on concrete inputs, the built-ins are instantiated with four-digit
  fixed-point numbers: a float is an integer number of ten-thousandths. \<open>fixed4_float_str\<close>
  reads a plain decimal literal (an optional minus sign, digits, an optional point followed
  by at most four digits) and rejects every other string; \<open>fixed4_fmt\<close> prints four
  fractional digits. On such literals Python's \<^verbatim>\<open>float\<close> and \<^verbatim>\<open>.4f\<close> give the same
  texts; the instance is used at such inputs and at strings without any digit only.
\<close>

definition is_digit :: "char \<Rightarrow> bool" where
  "is_digit c = (c \<in> set ''0123456789'')"

definition digit_val :: "char \<Rightarrow> nat" where
  "digit_val c = length (takeWhile (\<lambda>d. d \<noteq> c) ''0123456789'')"

definition digits_val :: "string \<Rightarrow> nat" where
  "digits_val s = foldl (\<lambda>acc c. 10 * acc + digit_val c) 0 s"

definition fixed4_float_str :: "string \<Rightarrow> int option" where
  "fixed4_float_str s =
     (let neg = (case s of [] \<Rightarrow> False | c # cs \<Rightarrow> c = CHR ''-'');
          body = (if neg then tl s else s);
          whole = takeWhile is_digit body;
          rest = dropWhile is_digit body;
          frac = (case rest of
                    [] \<Rightarrow> Some []
                  | c # fs \<Rightarrow> if c = CHR ''.'' \<and> list_all is_digit fs \<and> length fs \<le> 4
                              then Some fs else None)
      in case frac of
           None \<Rightarrow> None
         | Some fs \<Rightarrow>
             if whole = [] \<and> fs = [] then None
             else (let mag = int (digits_val whole * 10000 +
                                  digits_val fs * 10 ^ (4 - length fs))
                   in Some (if neg then - mag else mag)))"

definition fixed4_fmt :: "int \<Rightarrow> string" where
  "fixed4_fmt x =
     (let m = nat \<bar>x\<bar>; f = m mod 10000
      in (if x < 0 then ''-'' else []) @ str_nat (m div 10000) @ ''.'' @
         [digit_char (f div 1000), digit_char (f div 100 mod 10),
          digit_char (f div 10 mod 10), digit_char (f mod 10)])"

definition fixed4_str :: "int \<Rightarrow> string" where
  "fixed4_str x =
     (let t = rev (dropWhile (\<lambda>c. c = CHR ''0'') (rev (fixed4_fmt x)))
      in if t \<noteq> [] \<and> last t = CHR ''.'' then t @ ''0'' else t)"

definition ascii_lower :: "string \<Rightarrow> string" where
  "ascii_lower s =
     map (\<lambda>c. case map_of (zip ''ABCDEFGHIJKLMNOPQRSTUVWXYZ'' ''abcdefghijklmnopqrstuvwxyz'') c of
                 None \<Rightarrow> c
               | Some d \<Rightarrow> d) s"

definition fixed4 :: "int py" where
  "fixed4 = \<lparr>float_str = fixed4_float_str,
            float_int = (\<lambda>n. Some (n * 10000)),
            fzero = 0,
            fmt4 = fixed4_fmt,
            str_float = fixed4_str,
            lower = ascii_lower\<rparr>"

section \<open>Example states\<close>

text \<open>
  A world with two groups: \<open>A\<close> without members and \<open>B\<close> with the members 8 and 7,
  inserted in this order. The cached snapshot, loaded at time 0, holds the single record
  8, whose client price is not a number. A second record, 9, has two prices that are
  numbers.
\<close>

definition tea :: "int catalog_record" where
  "tea = [(''id'', PInt 8), (''Item'', PStr ''Tea''),
          (''ClientPrice'', PStr ''abc''), (''VendorPrice'', PStr ''1.5'')]"

definition coffee :: "int catalog_record" where
  "coffee = [(''id'', PInt 9), (''Item'', PStr ''Coffee''),
             (''ClientPrice'', PStr ''1.5''), (''VendorPrice'', PStr ''2'')]"

definition example_snapshot :: "int snapshot" where
  "example_snapshot = ([tea], [''id'', ''Item'', ''ClientPrice'', ''VendorPrice''])"

definition example_world :: "int world" where
  "example_world =
     \<lparr>groups = [(1, ''A''), (2, ''B'')],
      group_items = [(2, 8), (2, 7)],
      settings = [''db_path'' \<mapsto> ''items.DB''],
      TABLE_DATA = Some example_snapshot,
      LAST_REFRESH = 0,
      table_reads = []\<rparr>"

text \<open>A table reader on which every read fails.\<close>

definition failing_reader :: "int table_reader" where
  "failing_reader = (\<lambda>path. None)"

text \<open>
  A table reader that finds a table with the single row \<open>coffee\<close> at the path
  \<^verbatim>\<open>new.DB\<close> and fails at every other path.
\<close>

definition example_reader :: "int table_reader" where
  "example_reader =
     (\<lambda>path. if path = ''new.DB''
             then Some ([''id'', ''Item'', ''ClientPrice'', ''VendorPrice''], [map_of coffee])
             else None)"

section \<open>Reading a document\<close>




section \<open>The specification's reading of two export rules\<close>

text \<open>
  Following the words of the specification, not the code: each price is handled on its
  own; a value that parses is rendered with four fractional digits, a value that does not
  parse is rendered as \<^verbatim>\<open>0.0000\<close>.
\<close>

definition spec_price_text :: "'f py \<Rightarrow> 'f catalog_record \<Rightarrow> string \<Rightarrow> string" where
  "spec_price_text py item key =
     (case py_float py (dict_get item key (PStr ''0.0000'')) of
        Inr x \<Rightarrow> fmt4 py x
      | Inl e \<Rightarrow> ''0.0000'')"


section \<open>Catalog cache: refresh failure and invalidation\<close>

lemma get_records_expired:
  "TABLE_DATA w = None \<or> \<not> (t_check - LAST_REFRESH w < CACHE_TIMEOUT) \<Longrightarrow>
   get_records reader t_check t_load w = load_records reader t_load w"
  by (auto simp: get_records_def split: option.splits)

lemma load_records_failure:
  "read_table reader (current_db_path w) = None \<Longrightarrow>
   load_records reader t_load w = (w\<lparr>table_reads := table_reads w @ [current_db_path w]\<rparr>, ([], []))"
  by (simp add: load_records_def Let_def)

lemma example_world_path: "current_db_path example_world = ''items.DB''"
  by (simp add: current_db_path_def get_setting_def example_world_def)

lemma failing_reader_fails: "read_table failing_reader path = None"
  by (simp add: read_table_def failing_reader_def)

lemma example_world_expired: "\<not> (1000 - LAST_REFRESH example_world < CACHE_TIMEOUT)"
  by (simp add: example_world_def CACHE_TIMEOUT_def)

lemma example_world_fresh: "10 - LAST_REFRESH example_world < CACHE_TIMEOUT"
  by (simp add: example_world_def CACHE_TIMEOUT_def)

text \<open>
  C1 (as the code has it). When the read of the table fails during a refresh attempt
  (no snapshot is cached, or the cached one is not younger than the timeout),
  \<open>get_records\<close> returns the empty snapshot, whether or not an earlier snapshot exists.
  The failure is not passed on: the result is a value, and the cached snapshot and its
  time stamp stay as they were (only the read is recorded).
\<close>

theorem get_records_read_failure_empty:
  assumes "read_table reader (current_db_path w) = None"
      and "TABLE_DATA w = None \<or> \<not> (t_check - LAST_REFRESH w < CACHE_TIMEOUT)"
    shows "get_records reader t_check t_load w =
             (w\<lparr>table_reads := table_reads w @ [current_db_path w]\<rparr>, ([], []))"
  using assms by (simp add: get_records_expired load_records_failure)

theorem get_records_read_failure_empty_witness:
  "read_table failing_reader (current_db_path example_world) = None
   \<and> \<not> (1000 - LAST_REFRESH example_world < CACHE_TIMEOUT)
   \<and> get_records failing_reader 1000 1000 example_world =
       (example_world\<lparr>table_reads := [''items.DB'']\<rparr>, ([], []))"
  using get_records_read_failure_empty [of failing_reader example_world 1000 1000]
    failing_reader_fails [of "current_db_path example_world"] example_world_expired
  by (simp add: example_world_path) (simp add: example_world_def)

text \<open>
  C1 as the specification states it fails: with a snapshot cached at time 0, a call at
  time 1000 whose read fails does not return that snapshot.
\<close>

theorem get_records_stale_fallback_counterexample:
  "TABLE_DATA example_world = Some example_snapshot
   \<and> \<not> (1000 - LAST_REFRESH example_world < CACHE_TIMEOUT)
   \<and> read_table failing_reader (current_db_path example_world) = None
   \<and> snd (get_records failing_reader 1000 1000 example_world) = ([], [])
   \<and> snd (get_records failing_reader 1000 1000 example_world) \<noteq> example_snapshot"
proof -
  have "get_records failing_reader 1000 1000 example_world =
          load_records failing_reader 1000 example_world"
    using example_world_expired by (simp add: get_records_expired)
  then have "snd (get_records failing_reader 1000 1000 example_world) = ([], [])"
    by (simp add: load_records_failure failing_reader_fails)
  moreover have "example_snapshot \<noteq> ([], [])"
    by (simp add: example_snapshot_def)
  moreover have "TABLE_DATA example_world = Some example_snapshot"
    by (simp add: example_world_def)
  ultimately show ?thesis
    using example_world_expired failing_reader_fails by simp
qed

lemma read_row_all:
  "\<forall>field \<in> set field_names. row field = Some (v field) \<Longrightarrow>
   read_row field_names row = Some (map (\<lambda>field. (field, v field)) field_names)"
  by (induction field_names) (simp_all add: read_row_def)

lemma read_rows_all:
  "\<forall>row \<in> set rows. \<forall>field \<in> set field_names. row field = Some (val row field) \<Longrightarrow>
   those (map (read_row field_names) rows) =
     Some (map (\<lambda>row. map (\<lambda>field. (field, val row field)) field_names) rows)"
proof (induction rows)
  case Nil
  then show ?case by simp
next
  case (Cons row rows)
  have "\<forall>field \<in> set field_names. row field = Some (val row field)"
    using Cons.prems by simp
  then have "read_row field_names row =
      Some (map (\<lambda>field. (field, val row field)) field_names)"
    by (rule read_row_all)
  moreover have "those (map (read_row field_names) rows) =
      Some (map (\<lambda>row. map (\<lambda>field. (field, val row field)) field_names) rows)"
    using Cons by simp
  ultimately show ?case by simp
qed

lemma read_table_success:
  "reader path = Some (field_names, rows) \<Longrightarrow>
   \<forall>row \<in> set rows. \<forall>field \<in> set field_names. row field = Some (val row field) \<Longrightarrow>
   read_table reader path =
     Some (map (\<lambda>row. map (\<lambda>field. (field, val row field)) field_names) rows, field_names)"
  by (simp add: read_table_def read_rows_all)

lemma read_table_open_failure: "reader path = None \<Longrightarrow> read_table reader path = None"
  by (simp add: read_table_def)

lemma updated_world:
  "api_update_settings w (Some p) = (w', r) \<Longrightarrow>
   w' = w\<lparr>settings := (settings w)(''db_path'' \<mapsto> p), TABLE_DATA := None, LAST_REFRESH := 0\<rparr>
   \<and> r = ((''message'', ''Settings updated''), 200)"
  by (auto simp: api_update_settings_def set_setting_def)

lemma updated_world_path:
  "api_update_settings w (Some p) = (w', r) \<Longrightarrow>
   current_db_path w' = (if p = [] then ''items.DB'' else p)"
  by (auto simp: api_update_settings_def set_setting_def current_db_path_def get_setting_def)

lemma updated_world_loads:
  "api_update_settings w (Some p) = (w', r) \<Longrightarrow>
   get_records reader t_check t_load w' = load_records reader t_load w'"
  by (auto simp: api_update_settings_def set_setting_def get_records_def)

text \<open>
  C5. After \<open>api_update_settings\<close> has stored a path (status 200), the next
  \<open>get_records\<close> goes to the table reader at any clock reading, also inside the timeout
  of the snapshot loaded before. It reads at the stored path (at \<^verbatim>\<open>items.DB\<close> when the
  stored path is the empty string), and its result is what the reader gives there: the
  empty snapshot when the reader fails to open the table, and, when the reader opens a
  table all of whose fields can be read, the records of that table, which also become
  the cached snapshot with the load time as time stamp.
\<close>

theorem settings_update_forces_refresh:
  assumes set: "api_update_settings w (Some p) = (w', r)"
      and path: "path = (if p = [] then ''items.DB'' else p)"
  shows "snd r = 200
       \<and> table_reads (fst (get_records reader t_check t_load w')) = table_reads w @ [path]
       \<and> (reader path = None \<longrightarrow>
            get_records reader t_check t_load w' =
              (w'\<lparr>table_reads := table_reads w @ [path]\<rparr>, ([], [])))
       \<and> (reader path = Some (field_names, rows) \<and>
          (\<forall>row \<in> set rows. \<forall>field \<in> set field_names. row field = Some (val row field)) \<longrightarrow>
            get_records reader t_check t_load w' =
              (w'\<lparr>table_reads := table_reads w @ [path],
                  TABLE_DATA := Some (map (\<lambda>row. map (\<lambda>field. (field, val row field)) field_names) rows,
                                      field_names),
                  LAST_REFRESH := t_load\<rparr>,
               (map (\<lambda>row. map (\<lambda>field. (field, val row field)) field_names) rows, field_names)))"
proof -
  have loads: "get_records reader t_check t_load w' = load_records reader t_load w'"
    using set by (rule updated_world_loads)
  have cur: "current_db_path w' = path"
    using updated_world_path [OF set] path by simp
  have reads: "table_reads w' = table_reads w"
    using updated_world [OF set] by simp
  have status: "snd r = 200"
    using updated_world [OF set] by simp
  have log: "table_reads (fst (load_records reader t_load w')) = table_reads w @ [path]"
    by (simp add: load_records_def Let_def cur reads split: option.splits)
  have failure: "reader path = None \<longrightarrow>
      load_records reader t_load w' = (w'\<lparr>table_reads := table_reads w @ [path]\<rparr>, ([], []))"
    by (simp add: load_records_def Let_def cur reads read_table_open_failure)
  have success: "reader path = Some (field_names, rows) \<and>
      (\<forall>row \<in> set rows. \<forall>field \<in> set field_names. row field = Some (val row field)) \<longrightarrow>
      load_records reader t_load w' =
        (w'\<lparr>table_reads := table_reads w @ [path],
            TABLE_DATA := Some (map (\<lambda>row. map (\<lambda>field. (field, val row field)) field_names) rows,
                                field_names),
            LAST_REFRESH := t_load\<rparr>,
         (map (\<lambda>row. map (\<lambda>field. (field, val row field)) field_names) rows, field_names))"
  proof
    assume a: "reader path = Some (field_names, rows) \<and>
      (\<forall>row \<in> set rows. \<forall>field \<in> set field_names. row field = Some (val row field))"
    have "read_table reader path =
        Some (map (\<lambda>row. map (\<lambda>field. (field, val row field)) field_names) rows, field_names)"
      using a by (intro read_table_success) simp_all
    then show "load_records reader t_load w' =
        (w'\<lparr>table_reads := table_reads w @ [path],
            TABLE_DATA := Some (map (\<lambda>row. map (\<lambda>field. (field, val row field)) field_names) rows,
                                field_names),
            LAST_REFRESH := t_load\<rparr>,
         (map (\<lambda>row. map (\<lambda>field. (field, val row field)) field_names) rows, field_names))"
      by (simp add: load_records_def Let_def cur reads)
  qed
  show ?thesis
    unfolding loads using status log failure success by blast
qed

lemma example_reader_new: "example_reader ''new.DB'' =
    Some ([''id'', ''Item'', ''ClientPrice'', ''VendorPrice''], [map_of coffee])"
  by (simp add: example_reader_def)

lemma coffee_fields:
  "\<forall>row \<in> set [map_of coffee]. \<forall>field \<in> set [''id'', ''Item'', ''ClientPrice'', ''VendorPrice''].
     row field = Some (the (row field))"
  by (simp add: coffee_def)

lemma coffee_rows:
  "map (\<lambda>row. map (\<lambda>field. (field, the (row field))) [''id'', ''Item'', ''ClientPrice'', ''VendorPrice''])
     [map_of coffee] = [coffee]"
  by (simp add: coffee_def)

theorem settings_update_forces_refresh_witness:
  "get_records example_reader 10 10 example_world = (example_world, example_snapshot)
   \<and> snd (get_records example_reader 10 10
        (fst (api_update_settings example_world (Some ''new.DB'')))) =
       ([coffee], [''id'', ''Item'', ''ClientPrice'', ''VendorPrice''])
   \<and> table_reads (fst (get_records example_reader 10 10
        (fst (api_update_settings example_world (Some ''new.DB''))))) = [''new.DB'']
   \<and> failing_reader ''new.DB'' = None
   \<and> snd (get_records failing_reader 10 10
        (fst (api_update_settings example_world (Some ''new.DB'')))) = ([], [])"
proof -
  have set: "api_update_settings example_world (Some ''new.DB'') =
      (fst (api_update_settings example_world (Some ''new.DB'')),
       snd (api_update_settings example_world (Some ''new.DB'')))"
    by simp
  have path: "''new.DB'' = (if ''new.DB'' = [] then ''items.DB'' else ''new.DB'')"
    by simp
  have before: "get_records example_reader 10 10 example_world = (example_world, example_snapshot)"
    using example_world_fresh by (simp add: get_records_def example_world_def)
  have fails: "failing_reader ''new.DB'' = None"
    by (simp add: failing_reader_def)
  have reads: "table_reads example_world = []"
    by (simp add: example_world_def)
  note found = settings_update_forces_refresh [OF set path, of example_reader 10 10
      "[''id'', ''Item'', ''ClientPrice'', ''VendorPrice'']" "[map_of coffee]"
      "\<lambda>row field. the (row field)"]
  note lost = settings_update_forces_refresh [OF set path, of failing_reader 10 10]
  have "snd (get_records example_reader 10 10
        (fst (api_update_settings example_world (Some ''new.DB'')))) =
       (map (\<lambda>row. map (\<lambda>field. (field, the (row field)))
               [''id'', ''Item'', ''ClientPrice'', ''VendorPrice'']) [map_of coffee],
        [''id'', ''Item'', ''ClientPrice'', ''VendorPrice''])"
    using found example_reader_new coffee_fields by (simp del: list.map set_simps)
  then have "snd (get_records example_reader 10 10
        (fst (api_update_settings example_world (Some ''new.DB'')))) =
       ([coffee], [''id'', ''Item'', ''ClientPrice'', ''VendorPrice''])"
    by (simp only: coffee_rows)
  moreover have "table_reads (fst (get_records example_reader 10 10
        (fst (api_update_settings example_world (Some ''new.DB''))))) = [''new.DB'']"
    using found reads by simp
  moreover have "snd (get_records failing_reader 10 10
        (fst (api_update_settings example_world (Some ''new.DB'')))) = ([], [])"
    using lost fails by simp
  ultimately show ?thesis using before fails by simp
qed

section \<open>Group store: rename and membership\<close>

lemma sql_update_name_Nil: "sql_update_name [] new_name group_id = []"
  by (simp add: sql_update_name_def)

lemma sql_update_name_Cons:
  "sql_update_name ((i, n) # rows) new_name group_id =
     (if i = group_id then (i, new_name) else (i, n)) # sql_update_name rows new_name group_id"
  by (simp add: sql_update_name_def)

lemma sql_update_name_missing:
  "group_id \<notin> fst ` set rows \<Longrightarrow> sql_update_name rows new_name group_id = rows"
  by (induction rows) (auto simp: sql_update_name_Nil sql_update_name_Cons)

lemma sql_update_name_ids: "map fst (sql_update_name rows new_name group_id) = map fst rows"
  by (induction rows) (auto simp: sql_update_name_Nil sql_update_name_Cons)

lemma sql_update_name_other:
  "j \<noteq> group_id \<Longrightarrow>
   (j, m) \<in> set (sql_update_name rows new_name group_id) \<longleftrightarrow> (j, m) \<in> set rows"
  by (induction rows) (auto simp: sql_update_name_Nil sql_update_name_Cons split: if_splits)

lemma sql_update_name_self:
  "(group_id, old) \<in> set rows \<Longrightarrow>
   (group_id, new_name) \<in> set (sql_update_name rows new_name group_id)"
  by (induction rows) (auto simp: sql_update_name_Nil sql_update_name_Cons)

lemma sql_update_name_renamed:
  "(group_id, n) \<in> set (sql_update_name rows new_name group_id) \<Longrightarrow> n = new_name"
  by (induction rows) (auto simp: sql_update_name_Nil sql_update_name_Cons split: if_splits)

lemma sql_update_name_names:
  assumes "n \<in> snd ` set (sql_update_name rows new_name group_id)"
  shows "n = new_name \<or> n \<in> snd ` set rows"
proof -
  from assms obtain i where mem: "(i, n) \<in> set (sql_update_name rows new_name group_id)"
    by auto
  show ?thesis
  proof (cases "i = group_id")
    case True
    with mem show ?thesis by (auto dest: sql_update_name_renamed)
  next
    case False
    with mem have "(i, n) \<in> set rows" by (simp add: sql_update_name_other)
    then show ?thesis by force
  qed
qed

lemma sql_update_name_distinct:
  "distinct (map fst rows) \<Longrightarrow> distinct (map snd rows) \<Longrightarrow>
   \<forall>(j, m)\<in>set rows. j \<noteq> group_id \<longrightarrow> m \<noteq> new_name \<Longrightarrow>
   distinct (map snd (sql_update_name rows new_name group_id))"
proof (induction rows)
  case Nil
  then show ?case by (simp add: sql_update_name_Nil)
next
  case (Cons row rows)
  obtain i n where row: "row = (i, n)" by (cases row)
  have rest: "distinct (map snd (sql_update_name rows new_name group_id))"
    using Cons by simp
  have step: "sql_update_name (row # rows) new_name group_id =
          (if i = group_id then (i, new_name) else (i, n)) # sql_update_name rows new_name group_id"
    by (simp add: sql_update_name_Cons row)
  show ?case
  proof (cases "i = group_id")
    case True
    then have "group_id \<notin> fst ` set rows" using Cons.prems(1) row by auto
    then have same: "sql_update_name rows new_name group_id = rows"
      by (rule sql_update_name_missing)
    have "new_name \<notin> snd ` set rows"
      using Cons.prems(1,3) row True by force
    then show ?thesis using step True same Cons.prems(2) by simp
  next
    case False
    then have "n \<noteq> new_name" using Cons.prems(3) row by auto
    moreover have "n \<notin> snd ` set rows" using Cons.prems(2) row by auto
    ultimately have "n \<notin> snd ` set (sql_update_name rows new_name group_id)"
      using sql_update_name_names by blast
    then show ?thesis using step False rest by simp
  qed
qed

lemma sql_update_name_conflict:
  assumes "(group_id, old) \<in> set rows" and "(j, new_name) \<in> set rows" and "j \<noteq> group_id"
  shows "\<not> distinct (map snd (sql_update_name rows new_name group_id))"
proof -
  have a: "(group_id, new_name) \<in> set (sql_update_name rows new_name group_id)"
    using assms(1) by (rule sql_update_name_self)
  have b: "(j, new_name) \<in> set (sql_update_name rows new_name group_id)"
    using assms(2,3) by (simp add: sql_update_name_other)
  have "\<not> inj_on snd (set (sql_update_name rows new_name group_id))"
  proof
    assume "inj_on snd (set (sql_update_name rows new_name group_id))"
    from inj_onD[OF this _ a b] assms(3) show False by simp
  qed
  then show ?thesis by (simp add: distinct_map)
qed

lemma example_groups_ok: "groups_ok (groups example_world)"
  by (simp add: groups_ok_def example_world_def)

lemma sqlite_int_small: "sqlite_int 1" "sqlite_int 2" "sqlite_int 7" "sqlite_int 8" "sqlite_int 99"
  by (simp_all add: sqlite_int_def)

lemma sqlite_int_large: "\<not> sqlite_int (2 ^ 63)"
  by (simp add: sqlite_int_def)

text \<open>
  C3 (as the code has it). On a table that satisfies its constraints and for an id in
  SQLite's integer range, \<open>update_group\<close> fails (\<open>False\<close>, nothing changed) when the
  group exists and another group holds the new name; it renames the group and reports
  success when the group exists and no other group holds the name; and when the id
  matches no group it reports success too, leaving the table as it was. An id outside
  the integer range raises \<^verbatim>\<open>OverflowError\<close>.
\<close>

theorem update_group_outcome:
  assumes ok: "groups_ok (groups w)"
  shows "(\<not> sqlite_int group_id \<longrightarrow> update_group w group_id new_name = Inl OverflowError)
       \<and> (sqlite_int group_id \<and> group_id \<notin> fst ` set (groups w) \<longrightarrow>
            update_group w group_id new_name = Inr (w, True))
       \<and> (sqlite_int group_id \<and> group_id \<in> fst ` set (groups w) \<and>
            (\<exists>j. j \<noteq> group_id \<and> (j, new_name) \<in> set (groups w)) \<longrightarrow>
            update_group w group_id new_name = Inr (w, False))
       \<and> (sqlite_int group_id \<and> group_id \<in> fst ` set (groups w) \<and>
            \<not> (\<exists>j. j \<noteq> group_id \<and> (j, new_name) \<in> set (groups w)) \<longrightarrow>
            update_group w group_id new_name =
              Inr (w\<lparr>groups := sql_update_name (groups w) new_name group_id\<rparr>, True)
            \<and> (group_id, new_name) \<in> set (sql_update_name (groups w) new_name group_id))"
proof (intro conjI impI)
  assume "\<not> sqlite_int group_id"
  then show "update_group w group_id new_name = Inl OverflowError"
    by (simp add: update_group_def)
next
  assume a: "sqlite_int group_id \<and> group_id \<notin> fst ` set (groups w)"
  then have "sql_update_name (groups w) new_name group_id = groups w"
    by (simp add: sql_update_name_missing)
  then show "update_group w group_id new_name = Inr (w, True)"
    using ok a by (simp add: update_group_def)
next
  assume a: "sqlite_int group_id \<and> group_id \<in> fst ` set (groups w) \<and>
    (\<exists>j. j \<noteq> group_id \<and> (j, new_name) \<in> set (groups w))"
  then obtain old j where "(group_id, old) \<in> set (groups w)"
    "(j, new_name) \<in> set (groups w)" "j \<noteq> group_id"
    by auto
  then have "\<not> distinct (map snd (sql_update_name (groups w) new_name group_id))"
    by (rule sql_update_name_conflict)
  then show "update_group w group_id new_name = Inr (w, False)"
    using a by (simp add: update_group_def groups_ok_def)
next
  assume a: "sqlite_int group_id \<and> group_id \<in> fst ` set (groups w) \<and>
    \<not> (\<exists>j. j \<noteq> group_id \<and> (j, new_name) \<in> set (groups w))"
  have "distinct (map snd (sql_update_name (groups w) new_name group_id))"
    using ok a by (intro sql_update_name_distinct) (auto simp: groups_ok_def)
  then show "update_group w group_id new_name =
              Inr (w\<lparr>groups := sql_update_name (groups w) new_name group_id\<rparr>, True)"
    using ok a by (simp add: update_group_def groups_ok_def sql_update_name_ids)
next
  assume "sqlite_int group_id \<and> group_id \<in> fst ` set (groups w) \<and>
    \<not> (\<exists>j. j \<noteq> group_id \<and> (j, new_name) \<in> set (groups w))"
  then obtain old where "(group_id, old) \<in> set (groups w)" by auto
  then show "(group_id, new_name) \<in> set (sql_update_name (groups w) new_name group_id)"
    by (rule sql_update_name_self)
qed

theorem update_group_outcome_witness:
  "groups_ok (groups example_world)
   \<and> update_group example_world (2 ^ 63) ''C'' = Inl OverflowError
   \<and> update_group example_world 99 ''C'' = Inr (example_world, True)
   \<and> update_group example_world 2 ''A'' = Inr (example_world, False)
   \<and> update_group example_world 2 ''C'' =
       Inr (example_world\<lparr>groups := [(1, ''A''), (2, ''C'')]\<rparr>, True)"
proof -
  have "update_group example_world (2 ^ 63) ''C'' = Inl OverflowError"
    using update_group_outcome [OF example_groups_ok, of "2 ^ 63" "''C''"] sqlite_int_large
    by blast
  moreover have "update_group example_world 99 ''C'' = Inr (example_world, True)"
    using update_group_outcome [OF example_groups_ok, of 99 "''C''"] sqlite_int_small
    by (simp add: example_world_def)
  moreover have "update_group example_world 2 ''A'' = Inr (example_world, False)"
    using update_group_outcome [OF example_groups_ok, of 2 "''A''"] sqlite_int_small
    by (simp add: example_world_def)
  moreover have "update_group example_world 2 ''C'' =
       Inr (example_world\<lparr>groups := [(1, ''A''), (2, ''C'')]\<rparr>, True)"
    using update_group_outcome [OF example_groups_ok, of 2 "''C''"] sqlite_int_small
    by (simp add: example_world_def sql_update_name_def)
  ultimately show ?thesis using example_groups_ok by simp
qed

text \<open>
  C3 as the specification states it fails: renaming the unknown group 99 is answered
  with \<^verbatim>\<open>Group updated\<close> and status 200, not with a not-found failure.
\<close>

theorem update_group_unknown_id_counterexample:
  "99 \<notin> fst ` set (groups example_world)
   \<and> update_group example_world 99 ''C'' = Inr (example_world, True)
   \<and> update_group_api example_world 99 (Some ''C'') =
       Inr (example_world, ((''message'', ''Group updated''), 200))"
  by (simp add: update_group_api_def update_group_def sql_update_name_def groups_ok_def
      sqlite_int_def example_world_def)

lemma add_item_to_group_result:
  assumes "group_items_ok (group_items w)" and "sqlite_int group_id" and "sqlite_int item_id"
  shows "add_item_to_group w group_id item_id =
           (if (group_id, item_id) \<in> set (group_items w) then Inr (w, False)
            else Inr (w\<lparr>group_items := group_items w @ [(group_id, item_id)]\<rparr>, True))"
  using assms by (simp add: add_item_to_group_def group_items_ok_def)

text \<open>
  C4. The code does not keep the claim. For ids in SQLite's integer range that pass the
  handler's test, a pair that is not stored yet is stored and reported as added also
  when no group has the given id: \<open>add_item_to_group\<close> returns \<open>True\<close> and the
  handler answers \<^verbatim>\<open>Item added to group\<close> with status 201. The schema declares
  \<^verbatim>\<open>FOREIGN KEY(group_id) REFERENCES groups(id)\<close>, but no connection switches the check
  on, so the insert is not refused.
\<close>

theorem add_item_to_group_unknown_group_stored:
  assumes "group_items_ok (group_items w)"
      and "sqlite_int group_id" and "sqlite_int item_id"
      and "group_id \<noteq> 0" and "item_id \<noteq> 0"
      and "group_id \<notin> fst ` set (groups w)"
      and "(group_id, item_id) \<notin> set (group_items w)"
  shows "add_item_to_group w group_id item_id =
           Inr (w\<lparr>group_items := group_items w @ [(group_id, item_id)]\<rparr>, True)
       \<and> add_item_to_group_api w (Some group_id) (Some item_id) =
           Inr (w\<lparr>group_items := group_items w @ [(group_id, item_id)]\<rparr>,
                ((''message'', ''Item added to group''), 201))"
  using assms
  by (simp add: add_item_to_group_api_def add_item_to_group_result py_not_def)

theorem add_item_to_group_unknown_group_stored_witness:
  "99 \<notin> fst ` set (groups example_world)
   \<and> (99, 1) \<notin> set (group_items example_world)
   \<and> add_item_to_group example_world 99 1 =
       Inr (example_world\<lparr>group_items := [(2, 8), (2, 7), (99, 1)]\<rparr>, True)
   \<and> add_item_to_group_api example_world (Some 99) (Some 1) =
       Inr (example_world\<lparr>group_items := [(2, 8), (2, 7), (99, 1)]\<rparr>,
            ((''message'', ''Item added to group''), 201))"
proof -
  have ok: "group_items_ok (group_items example_world)"
    by (simp add: group_items_ok_def example_world_def)
  have unknown: "99 \<notin> fst ` set (groups example_world)"
    by (simp add: example_world_def)
  have fresh: "(99, 1) \<notin> set (group_items example_world)"
    by (simp add: example_world_def)
  have stored: "group_items example_world @ [(99, 1)] = [(2, 8), (2, 7), (99, 1)]"
    by (simp add: example_world_def)
  have "sqlite_int 99" and "sqlite_int 1"
    by (rule sqlite_int_small)+
  then show ?thesis
    using add_item_to_group_unknown_group_stored [OF ok _ _ _ _ unknown fresh] unknown fresh stored
    by simp
qed

text \<open>
  C10. \<open>add_item_to_group_api\<close> answers \<^verbatim>\<open>Missing group_id or item_id\<close> with status 400,
  without touching the store, exactly when one of the two ids is absent or is 0: an id
  that is present with the value 0 is rejected like a missing one.
\<close>

theorem add_item_api_zero_rejected:
  "add_item_to_group_api w group_id item_id =
     Inr (w, ((''error'', ''Missing group_id or item_id''), 400))
   \<longleftrightarrow> (group_id = None \<or> group_id = Some 0 \<or> item_id = None \<or> item_id = Some 0)"
  by (auto simp: add_item_to_group_api_def py_not_def
      split: option.splits prod.splits bool.splits sum.splits)

theorem add_item_api_zero_rejected_witness:
  "add_item_to_group_api example_world (Some 0) (Some 8) =
     Inr (example_world, ((''error'', ''Missing group_id or item_id''), 400))
   \<and> add_item_to_group_api example_world (Some 2) (Some 0) =
     Inr (example_world, ((''error'', ''Missing group_id or item_id''), 400))
   \<and> add_item_to_group_api example_world (Some 1) (Some 8) \<noteq>
     Inr (example_world, ((''error'', ''Missing group_id or item_id''), 400))"
  using add_item_api_zero_rejected [of example_world "Some 0" "Some 8"]
    add_item_api_zero_rejected [of example_world "Some 2" "Some 0"]
    add_item_api_zero_rejected [of example_world "Some 1" "Some 8"]
  by simp

section \<open>Search: pages outside the range\<close>

lemma slice_index_le: "slice_index n i \<le> n"
  by (auto simp: slice_index_def)

lemma py_slice_stop_zero: "py_slice xs start 0 = []"
  by (simp add: py_slice_def slice_index_def)

lemma py_slice_start_beyond:
  assumes "int (length xs) \<le> start"
  shows "py_slice xs start stop = []"
proof -
  have "slice_index (length xs) start = length xs"
    using assms by (simp add: slice_index_def)
  moreover have "slice_index (length xs) stop \<le> length xs"
    by (rule slice_index_le)
  ultimately show ?thesis by (simp add: py_slice_def)
qed

lemma search_records_total:
  "total (search_records py records q page_no) = length (filter_records py records (lower py q))"
  by (simp add: search_records_def Let_def)

lemma search_records_total_pages:
  "total_pages (search_records py records q page_no) =
     (length (filter_records py records (lower py q)) + 49) div 50"
  by (simp add: search_records_def Let_def)

lemma search_records_results:
  "results (search_records py records q page_no) =
     map display_fields
       (py_slice (filter_records py records (lower py q)) ((page_no - 1) * 50) ((page_no - 1) * 50 + 50))"
  by (simp add: search_records_def Let_def)

lemma search_items_body:
  "snd (search_items py reader t_check t_load w q page_no) =
     search_records py (fst (snd (get_records reader t_check t_load w))) q page_no"
  by (simp add: search_items_def split: prod.splits)

lemma fixed4_lower_empty: "lower fixed4 [] = []"
  by (simp add: fixed4_def ascii_lower_def)

lemma filter_records_no_query: "filter_records py records [] = records"
  by (simp add: filter_records_def)

text \<open>
  C9 (as the code has it). For page 0 and for every page after the last one,
  \<open>search_records\<close> returns an empty slice together with the number of matching
  records; nothing is raised (the function is total on integer pages). Negative pages
  are not covered: there the slice counts from the end of the matches.
\<close>

theorem search_out_of_range_page:
  assumes "page_no = 0 \<or> int (total_pages (search_records py records q page_no)) < page_no"
  shows "results (search_records py records q page_no) = []
       \<and> total (search_records py records q page_no) =
           length (filter_records py records (lower py q))
       \<and> page (search_records py records q page_no) = page_no"
proof -
  have "py_slice (filter_records py records (lower py q))
          ((page_no - 1) * 50) ((page_no - 1) * 50 + 50) = []"
  proof (cases "page_no = 0")
    case True
    then show ?thesis by (simp add: py_slice_stop_zero)
  next
    case False
    with assms have "int ((length (filter_records py records (lower py q)) + 49) div 50) < page_no"
      by (simp add: search_records_total_pages)
    then have "int ((length (filter_records py records (lower py q)) + 49) div 50) * 50
        \<le> (page_no - 1) * 50"
      by simp
    moreover have "length (filter_records py records (lower py q))
        \<le> ((length (filter_records py records (lower py q)) + 49) div 50) * 50"
      by presburger
    ultimately have "int (length (filter_records py records (lower py q))) \<le> (page_no - 1) * 50"
      by linarith
    then show ?thesis by (rule py_slice_start_beyond)
  qed
  then show ?thesis
    by (simp add: search_records_results search_records_total) (simp add: search_records_def Let_def)
qed

theorem search_out_of_range_page_witness:
  "results (search_records fixed4 (replicate 51 tea) [] 0) = []
   \<and> total (search_records fixed4 (replicate 51 tea) [] 0) = 51
   \<and> int (total_pages (search_records fixed4 (replicate 51 tea) [] 3)) < 3
   \<and> results (search_records fixed4 (replicate 51 tea) [] 3) = []
   \<and> total (search_records fixed4 (replicate 51 tea) [] 3) = 51"
proof -
  have tp: "int (total_pages (search_records fixed4 (replicate 51 tea) [] 3)) < 3"
    by (simp add: search_records_total_pages fixed4_lower_empty filter_records_no_query)
  show ?thesis
    using search_out_of_range_page [of 0 fixed4 "replicate 51 tea" "[]"]
      search_out_of_range_page [of 3 fixed4 "replicate 51 tea" "[]"] tp
    by (simp add: fixed4_lower_empty filter_records_no_query)
qed

text \<open>
  C9 as the specification states it fails on negative pages: with 51 records and the
  empty query there are two pages, and page -1 returns one record, since the slice
  \<^verbatim>\<open>filtered[-100:-50]\<close> is \<^verbatim>\<open>filtered[0:1]\<close>.
\<close>

theorem search_negative_page_counterexample:
  "total_pages (search_records fixed4 (replicate 51 tea) [] (- 1)) = 2
   \<and> total (search_records fixed4 (replicate 51 tea) [] (- 1)) = 51
   \<and> results (search_records fixed4 (replicate 51 tea) [] (- 1)) = [display_fields tea]
   \<and> results (search_records fixed4 (replicate 51 tea) [] (- 1)) \<noteq> []"
proof -
  have "py_slice (replicate 51 tea) (- 100) (- 50) = [tea]"
    by (simp add: py_slice_def slice_index_def)
  then show ?thesis
    by (simp add: search_records_results search_records_total search_records_total_pages
        fixed4_lower_empty filter_records_no_query)
qed

section \<open>Export: evaluation of the examples\<close>

lemma fixed4_float_str_abc: "fixed4_float_str ''abc'' = None"
  by (simp add: fixed4_float_str_def is_digit_def Let_def)

lemma fixed4_float_str_1_5: "fixed4_float_str ''1.5'' = Some 15000"
  by (simp add: fixed4_float_str_def is_digit_def digits_val_def digit_val_def Let_def)

lemma fixed4_float_str_2: "fixed4_float_str ''2'' = Some 20000"
  by (simp add: fixed4_float_str_def is_digit_def digits_val_def digit_val_def Let_def)

lemma fixed4_fmt_0: "fmt4 fixed4 0 = ''0.0000''"
  by (simp add: fixed4_def fixed4_fmt_def digit_char_def Let_def)

lemma fixed4_fmt_1_5: "fmt4 fixed4 15000 = ''1.5000''"
  by (simp add: fixed4_def fixed4_fmt_def digit_char_def Let_def)

lemma fixed4_fmt_2: "fmt4 fixed4 20000 = ''2.0000''"
  by (simp add: fixed4_def fixed4_fmt_def digit_char_def Let_def)

lemma fixed4_fzero: "fzero fixed4 = 0"
  by (simp add: fixed4_def)

lemma item_number_0_0: "item_number 0 0 = ''1.1''"
  by (simp add: item_number_def digit_char_def)

lemma item_number_1_1: "item_number (Suc 0) (Suc 0) = ''2.2''"
  by (simp add: item_number_def digit_char_def)

lemma lookup_item_tea: "lookup_item [(''8'', tea)] 8 = Some tea"
  by (simp add: lookup_item_def str_int_def digit_char_def tea_def)

lemma lookup_item_coffee: "lookup_item [(''9'', coffee)] 9 = Some coffee"
  by (simp add: lookup_item_def str_int_def digit_char_def coffee_def)

lemma lookup_item_absent: "lookup_item [(''8'', tea)] 7 = None"
  by (simp add: lookup_item_def str_int_def digit_char_def)

lemma tea_item_text: "cell_text (dict_get tea ''Item'' (PStr [])) = Inr ''Tea''"
  by (simp add: cell_text_def dict_get_def tea_def)

lemma coffee_item_text: "cell_text (dict_get coffee ''Item'' (PStr [])) = Inr ''Coffee''"
  by (simp add: cell_text_def dict_get_def coffee_def)

lemma tea_client_price:
  "py_float fixed4 (dict_get tea ''ClientPrice'' (PStr ''0.0000'')) = Inl ValueError"
  by (simp add: py_float_def dict_get_def tea_def fixed4_def fixed4_float_str_abc)

lemma tea_vendor_price:
  "py_float fixed4 (dict_get tea ''VendorPrice'' (PStr ''0.0000'')) = Inr 15000"
  by (simp add: py_float_def dict_get_def tea_def fixed4_def fixed4_float_str_1_5)

lemma coffee_client_price:
  "py_float fixed4 (dict_get coffee ''ClientPrice'' (PStr ''0.0000'')) = Inr 15000"
  by (simp add: py_float_def dict_get_def coffee_def fixed4_def fixed4_float_str_1_5)

lemma coffee_vendor_price:
  "py_float fixed4 (dict_get coffee ''VendorPrice'' (PStr ''0.0000'')) = Inr 20000"
  by (simp add: py_float_def dict_get_def coffee_def fixed4_def fixed4_float_str_2)

section \<open>Export: prices\<close>

lemma format_prices_both:
  "py_float py (dict_get item ''ClientPrice'' (PStr ''0.0000'')) = Inr c \<Longrightarrow>
   py_float py (dict_get item ''VendorPrice'' (PStr ''0.0000'')) = Inr v \<Longrightarrow>
   format_prices py item = Inr (c, v)"
  by (simp add: format_prices_def)

lemma format_prices_client_invalid:
  "py_float py (dict_get item ''ClientPrice'' (PStr ''0.0000'')) = Inl ValueError \<Longrightarrow>
   format_prices py item = Inr (fzero py, fzero py)"
  by (simp add: format_prices_def)

lemma format_prices_vendor_invalid:
  "py_float py (dict_get item ''ClientPrice'' (PStr ''0.0000'')) = Inr c \<Longrightarrow>
   py_float py (dict_get item ''VendorPrice'' (PStr ''0.0000'')) = Inl ValueError \<Longrightarrow>
   format_prices py item = Inr (fzero py, fzero py)"
  by (simp add: format_prices_def)

lemma export_item_row:
  "lookup_item records_dict item_id = Some item \<Longrightarrow>
   cell_text (dict_get item ''Item'' (PStr [])) = Inr name_text \<Longrightarrow>
   format_prices py item = Inr (c, v) \<Longrightarrow>
   export_item py records_dict group_idx item_idx item_id =
     Inr (Some [item_number group_idx item_idx, name_text, fmt4 py c, fmt4 py v])"
  by (simp add: export_item_def)

text \<open>
  C7 (as the code has it). For a member that is found in the snapshot and whose name is a
  string: when both prices convert to floats, the row shows each value in the format
  \<^verbatim>\<open>.4f\<close>; when the conversion of either price raises \<^verbatim>\<open>ValueError\<close>, both cells
  show the format of \<^verbatim>\<open>0.0\<close>, also the cell of the price that would have converted.
\<close>

theorem export_item_prices:
  assumes "lookup_item records_dict item_id = Some item"
      and "cell_text (dict_get item ''Item'' (PStr [])) = Inr name_text"
  shows "(py_float py (dict_get item ''ClientPrice'' (PStr ''0.0000'')) = Inr c \<and>
          py_float py (dict_get item ''VendorPrice'' (PStr ''0.0000'')) = Inr v \<longrightarrow>
            export_item py records_dict group_idx item_idx item_id =
              Inr (Some [item_number group_idx item_idx, name_text, fmt4 py c, fmt4 py v]))
       \<and> (py_float py (dict_get item ''ClientPrice'' (PStr ''0.0000'')) = Inl ValueError \<or>
          (py_float py (dict_get item ''ClientPrice'' (PStr ''0.0000'')) = Inr c \<and>
           py_float py (dict_get item ''VendorPrice'' (PStr ''0.0000'')) = Inl ValueError) \<longrightarrow>
            export_item py records_dict group_idx item_idx item_id =
              Inr (Some [item_number group_idx item_idx, name_text,
                         fmt4 py (fzero py), fmt4 py (fzero py)]))"
  using assms
  by (auto simp: export_item_row format_prices_both format_prices_client_invalid
      format_prices_vendor_invalid)

theorem export_item_prices_witness:
  "export_item fixed4 [(''9'', coffee)] 0 0 9 =
     Inr (Some [''1.1'', ''Coffee'', ''1.5000'', ''2.0000''])
   \<and> py_float fixed4 (dict_get tea ''ClientPrice'' (PStr ''0.0000'')) = Inl ValueError
   \<and> export_item fixed4 [(''8'', tea)] 1 1 8 =
     Inr (Some [''2.2'', ''Tea'', ''0.0000'', ''0.0000''])"
  using export_item_prices [OF lookup_item_coffee coffee_item_text, of fixed4 15000 20000 0 0]
    export_item_prices [OF lookup_item_tea tea_item_text, of fixed4 0 1 1]
  by (simp add: coffee_client_price coffee_vendor_price tea_client_price fixed4_fzero
      fixed4_fmt_0 fixed4_fmt_1_5 fixed4_fmt_2 item_number_0_0 item_number_1_1)

text \<open>
  C7 as the specification states it fails: the record \<open>tea\<close> has the client price
  \<^verbatim>\<open>abc\<close> and the vendor price \<^verbatim>\<open>1.5\<close>. Handled on its own the vendor price would be
  rendered \<^verbatim>\<open>1.5000\<close>; the exported row shows \<^verbatim>\<open>0.0000\<close> in both cells.
\<close>

theorem export_item_independent_prices_counterexample:
  "spec_price_text fixed4 tea ''ClientPrice'' = ''0.0000''
   \<and> spec_price_text fixed4 tea ''VendorPrice'' = ''1.5000''
   \<and> export_item fixed4 [(''8'', tea)] 1 1 8 =
       Inr (Some [''2.2'', ''Tea'', ''0.0000'', ''0.0000''])
   \<and> export_item fixed4 [(''8'', tea)] 1 1 8 \<noteq>
       Inr (Some [''2.2'', ''Tea'', spec_price_text fixed4 tea ''ClientPrice'',
                  spec_price_text fixed4 tea ''VendorPrice''])"
proof -
  have "format_prices fixed4 tea = Inr (0, 0)"
    using format_prices_client_invalid [OF tea_client_price] by (simp add: fixed4_fzero)
  then have "export_item fixed4 [(''8'', tea)] 1 1 8 =
       Inr (Some [''2.2'', ''Tea'', ''0.0000'', ''0.0000''])"
    using export_item_row [OF lookup_item_tea tea_item_text, of fixed4 0 0 1 1]
    by (simp add: fixed4_fmt_0 item_number_1_1)
  moreover have "spec_price_text fixed4 tea ''ClientPrice'' = ''0.0000''"
    by (simp add: spec_price_text_def tea_client_price)
  moreover have "spec_price_text fixed4 tea ''VendorPrice'' = ''1.5000''"
    by (simp add: spec_price_text_def tea_vendor_price fixed4_fmt_1_5)
  ultimately show ?thesis by simp
qed

section \<open>Export: skipped members, skipped groups and numbering\<close>

lemma export_item_skipped:
  "lookup_item records_dict item_id = None \<Longrightarrow>
   export_item py records_dict group_idx item_idx item_id = Inr None"
  by (simp add: export_item_def)



lemma export_items_all_skipped:
  "\<forall>item_id \<in> snd ` set pairs. lookup_item records_dict item_id = None \<Longrightarrow>
   export_items py records_dict group_idx pairs = Inr []"
proof (induction pairs)
  case Nil
  then show ?case by simp
next
  case (Cons pair pairs)
  obtain item_idx item_id where pair: "pair = (item_idx, item_id)" by (cases pair)
  have "lookup_item records_dict item_id = None" using Cons.prems pair by simp
  then have "export_item py records_dict group_idx item_idx item_id = Inr None"
    by (rule export_item_skipped)
  moreover have "export_items py records_dict group_idx pairs = Inr []"
    using Cons by simp
  ultimately show ?case by (simp add: pair)
qed


lemma group_header_not_empty: "str_nat (group_idx + 1) @ ''. '' @ name \<noteq> []"
  by simp



lemma export_group_empty: "export_group py records_dict group_idx name [] = Inr []"
  by (simp add: export_group_def)


text \<open>
  C6 (as the code has it). Two policies: a group without member ids is skipped (no
  header, no table); a group that has member ids, none of which is found in the
  snapshot, gets its header and a table with the header row only.
\<close>

theorem export_group_no_resolvable_member:
  "(item_ids = [] \<longrightarrow> export_group py records_dict group_idx name item_ids = Inr [])
   \<and> (item_ids \<noteq> [] \<and> (\<forall>item_id \<in> set item_ids. lookup_item records_dict item_id = None) \<longrightarrow>
        export_group py records_dict group_idx name item_ids =
          Inr [Paragraph (str_nat (group_idx + 1) @ ''. '' @ name),
               Table [table_headers], Paragraph []])"
proof (intro conjI impI)
  assume "item_ids = []"
  then show "export_group py records_dict group_idx name item_ids = Inr []"
    by (simp add: export_group_empty)
next
  assume a: "item_ids \<noteq> [] \<and> (\<forall>item_id \<in> set item_ids. lookup_item records_dict item_id = None)"
  then have "\<forall>item_id \<in> snd ` set (enumerate 0 item_ids). lookup_item records_dict item_id = None"
    by (metis list.set_map map_snd_enumerate)
  then have "export_items py records_dict group_idx (enumerate 0 item_ids) = Inr []"
    by (rule export_items_all_skipped)
  with a show "export_group py records_dict group_idx name item_ids =
          Inr [Paragraph (str_nat (group_idx + 1) @ ''. '' @ name),
               Table [table_headers], Paragraph []]"
    by (simp add: export_group_def)
qed

theorem export_group_no_resolvable_member_witness:
  "export_group fixed4 [(''8'', tea)] 0 ''A'' [] = Inr []
   \<and> lookup_item [(''8'', tea)] 7 = None
   \<and> export_group fixed4 [(''8'', tea)] 0 ''A'' [7] =
       Inr [Paragraph ''1. A'', Table [table_headers], Paragraph []]"
  using export_group_no_resolvable_member [of "[]" fixed4 "[(''8'', tea)]" 0 "''A''"]
    export_group_no_resolvable_member [of "[7]" fixed4 "[(''8'', tea)]" 0 "''A''"]
  by (simp add: lookup_item_absent digit_char_def)

text \<open>
  C6 as the specification states it fails: with a snapshot that holds the record 8 only,
  a group whose single member 7 is absent is exported with header and table, a group
  without members is not exported at all.
\<close>

theorem export_group_policy_counterexample:
  "lookup_item [(''8'', tea)] 7 = None
   \<and> export_group fixed4 [(''8'', tea)] 0 ''A'' [] = Inr []
   \<and> export_group fixed4 [(''8'', tea)] 0 ''A'' [7] \<noteq>
       export_group fixed4 [(''8'', tea)] 0 ''A'' []"
  by (simp add: export_group_def export_item_skipped lookup_item_absent)













end
